theory Spec2Isabelle
  imports Main
begin

section \<open>The transport-endpoint factory of \<^verbatim>\<open>quic_transport_factory_impl.cc\<close>\<close>

text \<open>
  The factory is a thin layer over Chromium's \<^verbatim>\<open>base\<close>, \<^verbatim>\<open>net\<close> and \<^verbatim>\<open>url\<close> libraries.
  Every call it makes into them is recorded, in program order, in a trace, each entry
  tagged with the thread that executes it. What the libraries answer (whether a proof
  source initialises, the origin of a URL, the build flavour) is a parameter of the model.
  A \<^verbatim>\<open>const char*\<close> argument is a \<open>string\<close>; a pointer that may be \<^verbatim>\<open>nullptr\<close> is an
  \<open>option\<close>; a pointer to a \<^verbatim>\<open>base::Thread\<close> is the index of the thread object in the
  process's list of threads.
\<close>

subsection \<open>Data\<close>

datatype MessagePumpType = DEFAULT | UI | IO

text \<open>
  A \<^verbatim>\<open>base::Thread\<close>: its name, the options it was started with (\<open>None\<close> before
  \<^verbatim>\<open>StartWithOptions\<close>), and whether its task runner takes a posted task.
\<close>

record Thread =
  thread_name :: string
  message_pump_type :: "MessagePumpType option"
  accepts_tasks :: bool

datatype exec_thread = CallingThread | WorkerThread nat

datatype LogSeverity = LOG_INFO | LOG_WARNING | LOG_ERROR

datatype LoggingDestination = LOG_TO_STDERR

datatype call =
    ThreadPoolInstance_CreateAndStartWithDefaultParams string
  | CommandLine_Init
  | CommandLine_ForCurrentProcess
  | CommandLine_AppendSwitch string
  | SetMinLogLevel LogSeverity
  | InitLogging LoggingDestination
  | ProofSourceChromium_Initialize_call string string string
  | ProofSourceOwt_Initialize_call string string
  | LOG LogSeverity string
  | New_QuicTransportOwtServerImpl
  | New_QuicTransportOwtClientImpl
  | Delete_QuicTransportOwtServerImpl
  | PostTask nat
  | Origin_Create_call string
  | WaitableEvent_Signal
  | WaitableEvent_Wait

text \<open>
  The process: the \<^verbatim>\<open>base::Thread\<close> objects made so far (a pointer to one is its index),
  the indices of those that have been destroyed, and the trace.
\<close>

record process =
  threads :: "Thread list"
  deleted :: "nat list"
  trace :: "(exec_thread \<times> call) list"

datatype Origin = OpaqueOrigin | TupleOrigin string string nat

text \<open>
  A proof source after a successful \<^verbatim>\<open>Initialize\<close>, identified by the arguments of that
  call: \<^verbatim>\<open>net::ProofSourceChromium\<close> (certificate, key and SCT path) or \<^verbatim>\<open>ProofSourceOwt\<close>
  (archive path and password).
\<close>

datatype ProofSource =
    ProofSourceChromium string string string
  | ProofSourceOwt string string

text \<open>
  Modelled from the spec: the declaration of \<^verbatim>\<open>owt::quic::CertificateFingerprint\<close> is not
  among the sources; the spec's FingerprintRecord has a digest algorithm, of a type whose
  one value is SHA-256, and the digest. The code reads only \<^verbatim>\<open>fingerprint\<close>.
\<close>

datatype DigestAlgorithm = SHA256

record owt_CertificateFingerprint =
  owt_algorithm :: DigestAlgorithm
  owt_fingerprint :: string

text \<open>
  \<^verbatim>\<open>QuicTransportClientInterface::Parameters\<close>: an array of pointers to fingerprint records
  (\<open>None\<close> is a null pointer) and the number of entries the callee is to read.
\<close>

record Parameters =
  server_certificate_fingerprints :: "owt_CertificateFingerprint option list"
  server_certificate_fingerprints_length :: nat

record quic_CertificateFingerprint =
  algorithm :: string
  fingerprint :: string

definition kSha256 :: string where
  "kSha256 = ''sha-256''"

record WebTransportParameters =
  quic_server_certificate_fingerprints :: "quic_CertificateFingerprint list"

text \<open>
  The two endpoint classes are not among the sources; an endpoint is the tuple of the
  arguments its constructor was given.
\<close>

record QuicTransportOwtServerImpl =
  port :: int
  accepted_origins :: "Origin list"
  proof_source :: ProofSource
  server_io_thread :: nat
  server_event_thread :: nat

record QuicTransportOwtClientImpl =
  url :: string
  origin :: Origin
  client_parameters :: WebTransportParameters
  client_io_thread :: nat
  client_event_thread :: nat

record QuicTransportFactoryImpl =
  at_exit_manager :: "unit option"
  io_thread :: nat
  event_thread :: nat

text \<open>
  What the libraries answer: the two \<^verbatim>\<open>Initialize\<close> methods, \<^verbatim>\<open>url::Origin::Create\<close> of
  \<^verbatim>\<open>GURL(url)\<close>, whether \<^verbatim>\<open>_DEBUG\<close> is defined, and the array pointer a default-constructed
  \<^verbatim>\<open>Parameters\<close> holds.
\<close>

record env =
  ProofSourceChromium_Initialize :: "string \<Rightarrow> string \<Rightarrow> string \<Rightarrow> bool"
  ProofSourceOwt_Initialize :: "string \<Rightarrow> string \<Rightarrow> bool"
  Origin_Create :: "string \<Rightarrow> Origin"
  DEBUG_defined :: bool
  Parameters_default :: Parameters

text \<open>
  A call either returns, or never returns (the caller stays blocked in
  \<^verbatim>\<open>WaitableEvent::Wait\<close>), or has undefined behaviour (a read through a null or dangling
  pointer, or past the end of the caller's array).
\<close>

datatype 'a outcome = Returns 'a | BlocksForever | UndefinedBehaviour

subsection \<open>Threads\<close>

definition emit :: "exec_thread \<Rightarrow> call \<Rightarrow> process \<Rightarrow> process" where
  "emit t c w = w\<lparr>trace := trace w @ [(t, c)]\<rparr>"

definition Thread_make_unique :: "string \<Rightarrow> process \<Rightarrow> nat \<times> process" where
  "Thread_make_unique nm w =
     (length (threads w),
      w\<lparr>threads := threads w @
          [\<lparr>thread_name = nm, message_pump_type = None, accepts_tasks = False\<rparr>]\<rparr>)"

definition StartWithOptions :: "nat \<Rightarrow> MessagePumpType \<Rightarrow> process \<Rightarrow> process" where
  "StartWithOptions t pump w =
     w\<lparr>threads := (threads w)[t := (threads w ! t)
          \<lparr>message_pump_type := Some pump, accepts_tasks := True\<rparr>]\<rparr>"

definition Thread_Stop :: "nat \<Rightarrow> process \<Rightarrow> process" where
  "Thread_Stop t w =
     w\<lparr>threads := (threads w)[t := (threads w ! t)\<lparr>accepts_tasks := False\<rparr>]\<rparr>"

text \<open>
  Destroying a \<^verbatim>\<open>base::Thread\<close> stops it and ends the life of the object; a pointer to
  it dangles from then on.
\<close>

definition Thread_delete :: "nat \<Rightarrow> process \<Rightarrow> process" where
  "Thread_delete t w = (let w = Thread_Stop t w in w\<lparr>deleted := t # deleted w\<rparr>)"

definition thread_alive :: "nat \<Rightarrow> process \<Rightarrow> bool" where
  "thread_alive t w = (t < length (threads w) \<and> t \<notin> set (deleted w))"

definition task_accepted :: "nat \<Rightarrow> process \<Rightarrow> bool" where
  "task_accepted t w = (thread_alive t w \<and> accepts_tasks (threads w ! t))"

subsection \<open>Construction and teardown of the factory\<close>

definition Init :: "env \<Rightarrow> process \<Rightarrow> process" where
  "Init e w =
     (let w = emit CallingThread CommandLine_Init w;
          w = emit CallingThread CommandLine_ForCurrentProcess w;
          w = emit CallingThread (CommandLine_AppendSwitch ''--quic_default_to_bbr'') w;
          w = (if DEBUG_defined e then emit CallingThread (SetMinLogLevel LOG_INFO) w
               else emit CallingThread (SetMinLogLevel LOG_WARNING) w);
          settings = LOG_TO_STDERR
      in emit CallingThread (InitLogging settings) w)"

definition QuicTransportFactoryImpl_ctor ::
  "env \<Rightarrow> process \<Rightarrow> QuicTransportFactoryImpl \<times> process" where
  "QuicTransportFactoryImpl_ctor e w =
     (let (io, w) = Thread_make_unique ''quic_transport_io_thread'' w;
          (ev, w) = Thread_make_unique ''quic_transport_event_thread'' w;
          this = \<lparr>at_exit_manager = None, io_thread = io, event_thread = ev\<rparr>;
          options = IO;
          w = StartWithOptions (io_thread this) options w;
          w = StartWithOptions (event_thread this) options w;
          w = Init e w
      in (this, w))"

definition InitializeAtExitManager :: "QuicTransportFactoryImpl \<Rightarrow> QuicTransportFactoryImpl" where
  "InitializeAtExitManager this = this\<lparr>at_exit_manager := Some ()\<rparr>"

definition Create :: "env \<Rightarrow> process \<Rightarrow> QuicTransportFactoryImpl \<times> process" where
  "Create e w =
     (let w = emit CallingThread
                (ThreadPoolInstance_CreateAndStartWithDefaultParams ''quic_transport_thread_pool'') w;
          (factory, w) = QuicTransportFactoryImpl_ctor e w;
          factory = InitializeAtExitManager factory
      in (factory, w))"

definition CreateForTesting :: "env \<Rightarrow> process \<Rightarrow> QuicTransportFactoryImpl \<times> process" where
  "CreateForTesting e w = QuicTransportFactoryImpl_ctor e w"

text \<open>
  The destructor is defaulted: the members go in reverse order of declaration, and each
  \<^verbatim>\<open>unique_ptr\<close> destroys the \<^verbatim>\<open>base::Thread\<close> it owns. The factory is gone after it, and a
  member function called on it reads destroyed objects.
\<close>

definition QuicTransportFactoryImpl_dtor :: "QuicTransportFactoryImpl \<Rightarrow> process \<Rightarrow> process" where
  "QuicTransportFactoryImpl_dtor this w =
     (let w = Thread_delete (event_thread this) w;
          w = Thread_delete (io_thread this) w
      in w)"

subsection \<open>Servers\<close>

definition CreateQuicTransportServer ::
  "env \<Rightarrow> QuicTransportFactoryImpl \<Rightarrow> int \<Rightarrow> string \<Rightarrow> string \<Rightarrow> string \<Rightarrow> process
   \<Rightarrow> QuicTransportOwtServerImpl option \<times> process" where
  "CreateQuicTransportServer e this port' cert_path key_path secret_path w =
     (let w = emit CallingThread (ProofSourceChromium_Initialize_call cert_path key_path []) w
      in if \<not> ProofSourceChromium_Initialize e cert_path key_path [] then
           (None, emit CallingThread (LOG LOG_ERROR ''Failed to initialize proof source.'') w)
         else
           (Some \<lparr>port = port', accepted_origins = [],
                  proof_source = ProofSourceChromium cert_path key_path [],
                  server_io_thread = io_thread this,
                  server_event_thread = event_thread this\<rparr>,
            emit CallingThread New_QuicTransportOwtServerImpl w))"

definition CreateQuicTransportServer_pfx ::
  "env \<Rightarrow> QuicTransportFactoryImpl \<Rightarrow> int \<Rightarrow> string \<Rightarrow> string \<Rightarrow> process
   \<Rightarrow> QuicTransportOwtServerImpl option \<times> process" where
  "CreateQuicTransportServer_pfx e this port' pfx_path password w =
     (let w = emit CallingThread (ProofSourceOwt_Initialize_call pfx_path password) w
      in if \<not> ProofSourceOwt_Initialize e pfx_path password then
           (None, emit CallingThread (LOG LOG_ERROR ''Failed to initialize proof source.'') w)
         else
           (Some \<lparr>port = port', accepted_origins = [],
                  proof_source = ProofSourceOwt pfx_path password,
                  server_io_thread = io_thread this,
                  server_event_thread = event_thread this\<rparr>,
            emit CallingThread New_QuicTransportOwtServerImpl w))"

definition ReleaseQuicTransportServer ::
  "QuicTransportOwtServerImpl \<Rightarrow> process \<Rightarrow> process" where
  "ReleaseQuicTransportServer server w = emit CallingThread Delete_QuicTransportOwtServerImpl w"

subsection \<open>Clients\<close>

text \<open>
  The loop over the caller's array. Reading entry \<open>i\<close> of an array with fewer entries, or
  through a null entry, is undefined behaviour (\<open>None\<close>). The digest is a C string on
  the caller's side and a \<^verbatim>\<open>std::string\<close> in the configuration; both are a \<open>string\<close> here.
\<close>

function fingerprints_loop ::
  "Parameters \<Rightarrow> nat \<Rightarrow> WebTransportParameters \<Rightarrow> WebTransportParameters option" where
  "fingerprints_loop parameters i param =
     (if i < server_certificate_fingerprints_length parameters then
        (if i < length (server_certificate_fingerprints parameters) then
           (case server_certificate_fingerprints parameters ! i of
              None \<Rightarrow> None
            | Some fingerprint' \<Rightarrow>
                let quic_fingerprint =
                      \<lparr>algorithm = kSha256, fingerprint = owt_fingerprint fingerprint'\<rparr>
                in fingerprints_loop parameters (i + 1)
                     (param\<lparr>quic_server_certificate_fingerprints :=
                        quic_server_certificate_fingerprints param @ [quic_fingerprint]\<rparr>))
         else None)
      else Some param)"
  by pat_completeness auto
termination
  by (relation "measure (\<lambda>(parameters, i, param). server_certificate_fingerprints_length parameters - i)")
     auto

declare fingerprints_loop.simps [simp del]

text \<open>
  The hand-off to the I/O thread. The posted task is the only code that signals the
  event; what \<^verbatim>\<open>PostTask\<close> returns is discarded and \<^verbatim>\<open>Wait\<close> has no timeout. So the call
  returns once the I/O thread has run the task, and a task the thread does not take is
  never run: the caller stays in \<^verbatim>\<open>Wait\<close>. The trace lists the caller's two steps
  first and the steps of the task, on the I/O thread, after them. The caller is a thread
  other than the factory's two.
\<close>

definition CreateQuicTransportClient ::
  "env \<Rightarrow> QuicTransportFactoryImpl \<Rightarrow> string \<Rightarrow> Parameters \<Rightarrow> process
   \<Rightarrow> QuicTransportOwtClientImpl option outcome \<times> process" where
  "CreateQuicTransportClient e this url' parameters w =
     (case fingerprints_loop parameters 0 \<lparr>quic_server_certificate_fingerprints = []\<rparr> of
        None \<Rightarrow> (UndefinedBehaviour, w)
      | Some param \<Rightarrow>
          if \<not> thread_alive (io_thread this) w then (UndefinedBehaviour, w)
          else
            let result = (None :: QuicTransportOwtClientImpl option);
                w = emit CallingThread (PostTask (io_thread this)) w;
                w = emit CallingThread WaitableEvent_Wait w
            in if task_accepted (io_thread this) w then
                 let io = WorkerThread (io_thread this);
                     w = emit io (Origin_Create_call url') w;
                     origin' = Origin_Create e url';
                     w = emit io New_QuicTransportOwtClientImpl w;
                     client = \<lparr>url = url', origin = origin', client_parameters = param,
                               client_io_thread = io_thread this,
                               client_event_thread = event_thread this\<rparr>;
                     result = Some client;
                     w = emit io WaitableEvent_Signal w
                 in (Returns result, w)
               else (BlocksForever, w))"

definition CreateQuicTransportClient_url ::
  "env \<Rightarrow> QuicTransportFactoryImpl \<Rightarrow> string \<Rightarrow> process
   \<Rightarrow> QuicTransportOwtClientImpl option outcome \<times> process" where
  "CreateQuicTransportClient_url e this url' w =
     (let param = Parameters_default e;
          param = param\<lparr>server_certificate_fingerprints_length := 0\<rparr>
      in CreateQuicTransportClient e this url' param w)"

subsection \<open>Well-formed arguments and a running example\<close>

text \<open>
  The caller's array can be read up to the announced length: it has at least that many
  entries and none of them is a null pointer.
\<close>

definition parameters_readable :: "Parameters \<Rightarrow> bool" where
  "parameters_readable p =
     (server_certificate_fingerprints_length p \<le> length (server_certificate_fingerprints p)
      \<and> list_all (\<lambda>r. r \<noteq> None)
           (take (server_certificate_fingerprints_length p) (server_certificate_fingerprints p)))"

text \<open>
  A process with no thread yet; libraries that accept one certificate and key pair, one
  archive and one URL; and the factory built there by \<^verbatim>\<open>CreateForTesting\<close>.
\<close>

definition empty_process :: process where
  "empty_process = \<lparr>threads = [], deleted = [], trace = []\<rparr>"

definition example_env :: env where
  "example_env =
     \<lparr>ProofSourceChromium_Initialize = (\<lambda>c k s. c = ''cert.pem'' \<and> k = ''key.pem'' \<and> s = []),
      ProofSourceOwt_Initialize = (\<lambda>p pw. p = ''archive.pfx'' \<and> pw = ''password''),
      Origin_Create = (\<lambda>u. if u = ''https://example.test:9090''
                            then TupleOrigin ''https'' ''example.test'' 9090 else OpaqueOrigin),
      DEBUG_defined = False,
      Parameters_default =
        \<lparr>server_certificate_fingerprints = [], server_certificate_fingerprints_length = 0\<rparr>\<rparr>"

definition example_factory :: QuicTransportFactoryImpl where
  "example_factory = fst (CreateForTesting example_env empty_process)"

definition example_process :: process where
  "example_process = snd (CreateForTesting example_env empty_process)"

text \<open>
  Two argument values for \<^verbatim>\<open>CreateQuicTransportClient\<close>: no fingerprint, and two
  records.
\<close>

definition no_fingerprints :: Parameters where
  "no_fingerprints =
     \<lparr>server_certificate_fingerprints = [], server_certificate_fingerprints_length = 0\<rparr>"

definition two_fingerprints :: Parameters where
  "two_fingerprints =
     \<lparr>server_certificate_fingerprints =
        [Some \<lparr>owt_algorithm = SHA256, owt_fingerprint = ''AB:CD''\<rparr>,
         Some \<lparr>owt_algorithm = SHA256, owt_fingerprint = ''01:23''\<rparr>],
      server_certificate_fingerprints_length = 2\<rparr>"

section \<open>Properties\<close>

subsection \<open>Auxiliary facts\<close>

lemma threads_emit [simp]: "threads (emit t c w) = threads w"
  by (simp add: emit_def)

lemma trace_emit [simp]: "trace (emit t c w) = trace w @ [(t, c)]"
  by (simp add: emit_def)

lemma deleted_emit [simp]: "deleted (emit t c w) = deleted w"
  by (simp add: emit_def)

lemma thread_alive_emit [simp]: "thread_alive n (emit t c w) = thread_alive n w"
  by (simp add: thread_alive_def)

lemma task_accepted_emit [simp]: "task_accepted n (emit t c w) = task_accepted n w"
  by (simp add: task_accepted_def)

lemma task_accepted_alive: "task_accepted n w \<Longrightarrow> thread_alive n w"
  by (simp add: task_accepted_def)

lemma example_factory_eq:
  "example_factory = \<lparr>at_exit_manager = None, io_thread = 0, event_thread = 1\<rparr>"
  by (simp add: example_factory_def CreateForTesting_def QuicTransportFactoryImpl_ctor_def
      Thread_make_unique_def empty_process_def Let_def)

lemma example_process_threads:
  "threads example_process =
     [\<lparr>thread_name = ''quic_transport_io_thread'', message_pump_type = Some IO, accepts_tasks = True\<rparr>,
      \<lparr>thread_name = ''quic_transport_event_thread'', message_pump_type = Some IO, accepts_tasks = True\<rparr>]"
  by (simp add: example_process_def CreateForTesting_def QuicTransportFactoryImpl_ctor_def
      Thread_make_unique_def StartWithOptions_def Init_def empty_process_def Let_def)

lemma example_process_deleted: "deleted example_process = []"
  by (simp add: example_process_def CreateForTesting_def QuicTransportFactoryImpl_ctor_def
      Thread_make_unique_def StartWithOptions_def Init_def empty_process_def Let_def)

lemma example_process_trace:
  "trace example_process =
     [(CallingThread, CommandLine_Init), (CallingThread, CommandLine_ForCurrentProcess),
      (CallingThread, CommandLine_AppendSwitch ''--quic_default_to_bbr''),
      (CallingThread, SetMinLogLevel LOG_WARNING), (CallingThread, InitLogging LOG_TO_STDERR)]"
  by (simp add: example_process_def CreateForTesting_def QuicTransportFactoryImpl_ctor_def
      Thread_make_unique_def StartWithOptions_def Init_def empty_process_def Let_def example_env_def)

lemma fingerprints_loop_from:
  "parameters_readable p \<Longrightarrow> i \<le> server_certificate_fingerprints_length p \<Longrightarrow>
   fingerprints_loop p i param =
     Some (param\<lparr>quic_server_certificate_fingerprints :=
        quic_server_certificate_fingerprints param @
        map (\<lambda>r. \<lparr>algorithm = kSha256, fingerprint = owt_fingerprint (the r)\<rparr>)
          (drop i (take (server_certificate_fingerprints_length p)
                        (server_certificate_fingerprints p)))\<rparr>)"
proof (induction p i param rule: fingerprints_loop.induct)
  case (1 p i param)
  let ?n = "server_certificate_fingerprints_length p"
  let ?arr = "server_certificate_fingerprints p"
  show ?case
  proof (cases "i < ?n")
    case False
    with "1.prems" have "i = ?n" by simp
    then show ?thesis
      by (subst fingerprints_loop.simps) simp
  next
    case True
    from "1.prems"(1) have len: "?n \<le> length ?arr"
      and nn: "list_all (\<lambda>r. r \<noteq> None) (take ?n ?arr)"
      by (simp_all add: parameters_readable_def)
    from True len have il: "i < length ?arr" by simp
    from nn True il have "?arr ! i \<noteq> None"
      by (metis (mono_tags, lifting) len length_take list_all_length min.absorb2 nth_take)
    then obtain r where r: "?arr ! i = Some r" by auto
    have dr: "drop i (take ?n ?arr) = ?arr ! i # drop (i + 1) (take ?n ?arr)"
      using True il len by (metis Cons_nth_drop_Suc Suc_eq_plus1 length_take min.absorb2 nth_take)
    have ih: "fingerprints_loop p (i + 1)
         (param\<lparr>quic_server_certificate_fingerprints :=
                  quic_server_certificate_fingerprints param @ [\<lparr>algorithm = kSha256, fingerprint = owt_fingerprint r\<rparr>]\<rparr>)
       = Some (param\<lparr>quic_server_certificate_fingerprints :=
        (quic_server_certificate_fingerprints param @ [\<lparr>algorithm = kSha256, fingerprint = owt_fingerprint r\<rparr>]) @
        map (\<lambda>r. \<lparr>algorithm = kSha256, fingerprint = owt_fingerprint (the r)\<rparr>) (drop (i + 1) (take ?n ?arr))\<rparr>)"
      using "1.IH"[OF True il r refl "1.prems"(1)] True by simp
    show ?thesis
      using ih by (subst fingerprints_loop.simps) (simp add: True il r dr)
  qed
qed

lemma fingerprints_loop_readable:
  "parameters_readable p \<Longrightarrow>
   fingerprints_loop p 0 \<lparr>quic_server_certificate_fingerprints = []\<rparr> =
     Some \<lparr>quic_server_certificate_fingerprints =
        map (\<lambda>r. \<lparr>algorithm = kSha256, fingerprint = owt_fingerprint (the r)\<rparr>)
          (take (server_certificate_fingerprints_length p) (server_certificate_fingerprints p))\<rparr>"
  by (simp add: fingerprints_loop_from)

lemma fingerprints_loop_zero:
  "server_certificate_fingerprints_length p = 0 \<Longrightarrow> fingerprints_loop p i param = Some param"
  by (subst fingerprints_loop.simps) simp

lemma client_accepted:
  "fingerprints_loop p 0 \<lparr>quic_server_certificate_fingerprints = []\<rparr> = Some cfg \<Longrightarrow>
   task_accepted (io_thread this) w \<Longrightarrow>
   CreateQuicTransportClient e this u p w =
     (Returns (Some \<lparr>url = u, origin = Origin_Create e u, client_parameters = cfg,
                     client_io_thread = io_thread this,
                     client_event_thread = event_thread this\<rparr>),
      w\<lparr>trace := trace w @
          [(CallingThread, PostTask (io_thread this)), (CallingThread, WaitableEvent_Wait),
           (WorkerThread (io_thread this), Origin_Create_call u),
           (WorkerThread (io_thread this), New_QuicTransportOwtClientImpl),
           (WorkerThread (io_thread this), WaitableEvent_Signal)]\<rparr>)"
  by (simp add: CreateQuicTransportClient_def Let_def emit_def task_accepted_def thread_alive_def)

lemma client_never_null:
  "fst (CreateQuicTransportClient e this u p w) \<noteq> Returns None"
  by (simp add: CreateQuicTransportClient_def Let_def split: option.splits)

lemma server_files_ok:
  "ProofSourceChromium_Initialize e c k [] \<Longrightarrow>
   CreateQuicTransportServer e this p c k s w =
     (Some \<lparr>port = p, accepted_origins = [], proof_source = ProofSourceChromium c k [],
            server_io_thread = io_thread this, server_event_thread = event_thread this\<rparr>,
      w\<lparr>trace := trace w @
          [(CallingThread, ProofSourceChromium_Initialize_call c k []),
           (CallingThread, New_QuicTransportOwtServerImpl)]\<rparr>)"
  by (simp add: CreateQuicTransportServer_def emit_def)

lemma server_files_fail:
  "\<not> ProofSourceChromium_Initialize e c k [] \<Longrightarrow>
   CreateQuicTransportServer e this p c k s w =
     (None,
      w\<lparr>trace := trace w @
          [(CallingThread, ProofSourceChromium_Initialize_call c k []),
           (CallingThread, LOG LOG_ERROR ''Failed to initialize proof source.'')]\<rparr>)"
  by (simp add: CreateQuicTransportServer_def emit_def)

lemma server_pfx_ok:
  "ProofSourceOwt_Initialize e f pw \<Longrightarrow>
   CreateQuicTransportServer_pfx e this p f pw w =
     (Some \<lparr>port = p, accepted_origins = [], proof_source = ProofSourceOwt f pw,
            server_io_thread = io_thread this, server_event_thread = event_thread this\<rparr>,
      w\<lparr>trace := trace w @
          [(CallingThread, ProofSourceOwt_Initialize_call f pw),
           (CallingThread, New_QuicTransportOwtServerImpl)]\<rparr>)"
  by (simp add: CreateQuicTransportServer_pfx_def emit_def)

lemma server_pfx_fail:
  "\<not> ProofSourceOwt_Initialize e f pw \<Longrightarrow>
   CreateQuicTransportServer_pfx e this p f pw w =
     (None,
      w\<lparr>trace := trace w @
          [(CallingThread, ProofSourceOwt_Initialize_call f pw),
           (CallingThread, LOG LOG_ERROR ''Failed to initialize proof source.'')]\<rparr>)"
  by (simp add: CreateQuicTransportServer_pfx_def emit_def)

lemma example_env_simps [simp]:
  "ProofSourceChromium_Initialize example_env c k s = (c = ''cert.pem'' \<and> k = ''key.pem'' \<and> s = [])"
  "ProofSourceOwt_Initialize example_env f pw = (f = ''archive.pfx'' \<and> pw = ''password'')"
  "Origin_Create example_env u =
     (if u = ''https://example.test:9090'' then TupleOrigin ''https'' ''example.test'' 9090
      else OpaqueOrigin)"
  "DEBUG_defined example_env = False"
  "Parameters_default example_env =
     \<lparr>server_certificate_fingerprints = [], server_certificate_fingerprints_length = 0\<rparr>"
  by (simp_all add: example_env_def)

lemma example_factory_threads [simp]:
  "io_thread example_factory = 0" "event_thread example_factory = 1"
  by (simp_all add: example_factory_eq)

lemma example_accepts0 [simp]: "task_accepted 0 example_process"
  by (simp add: task_accepted_def thread_alive_def example_process_threads
      example_process_deleted)

lemma example_accepts: "task_accepted (io_thread example_factory) example_process"
  by simp

lemma dtor_deletes_io_thread:
  "\<not> thread_alive (io_thread this) (QuicTransportFactoryImpl_dtor this w)"
  by (simp add: QuicTransportFactoryImpl_dtor_def Thread_delete_def thread_alive_def Let_def)

lemma trace_after_dtor:
  "trace (QuicTransportFactoryImpl_dtor this w) = trace w"
  by (simp add: QuicTransportFactoryImpl_dtor_def Thread_delete_def Thread_Stop_def Let_def)

lemma client_after_dtor:
  "CreateQuicTransportClient e this u p (QuicTransportFactoryImpl_dtor this w)
     = (UndefinedBehaviour, QuicTransportFactoryImpl_dtor this w)"
  by (simp add: CreateQuicTransportClient_def dtor_deletes_io_thread split: option.splits)

lemma ctor_eq:
  "QuicTransportFactoryImpl_ctor e w =
     (\<lparr>at_exit_manager = None, io_thread = length (threads w),
       event_thread = Suc (length (threads w))\<rparr>,
      \<lparr>threads = threads w @
         [\<lparr>thread_name = ''quic_transport_io_thread'', message_pump_type = Some IO,
           accepts_tasks = True\<rparr>,
          \<lparr>thread_name = ''quic_transport_event_thread'', message_pump_type = Some IO,
           accepts_tasks = True\<rparr>],
       deleted = deleted w,
       trace = trace w @
         [(CallingThread, CommandLine_Init), (CallingThread, CommandLine_ForCurrentProcess),
          (CallingThread, CommandLine_AppendSwitch ''--quic_default_to_bbr''),
          (CallingThread, SetMinLogLevel (if DEBUG_defined e then LOG_INFO else LOG_WARNING)),
          (CallingThread, InitLogging LOG_TO_STDERR)]\<rparr>)"
  by (simp add: QuicTransportFactoryImpl_ctor_def Thread_make_unique_def StartWithOptions_def
      Init_def emit_def Let_def nth_append list_update_append)

lemma server_threads:
  "threads (snd (CreateQuicTransportServer e this p c k s w)) = threads w"
  "threads (snd (CreateQuicTransportServer_pfx e this p f pw w)) = threads w"
  by (simp_all add: CreateQuicTransportServer_def CreateQuicTransportServer_pfx_def Let_def)

lemma client_threads:
  "threads (snd (CreateQuicTransportClient e this u ps w)) = threads w"
  by (simp add: CreateQuicTransportClient_def Let_def split: option.splits)

lemma server_thread_refs:
  "fst (CreateQuicTransportServer e this p c k s w) = Some srv \<Longrightarrow>
     server_io_thread srv = io_thread this \<and> server_event_thread srv = event_thread this"
  "fst (CreateQuicTransportServer_pfx e this p f pw w) = Some srv \<Longrightarrow>
     server_io_thread srv = io_thread this \<and> server_event_thread srv = event_thread this"
  by (auto simp add: CreateQuicTransportServer_def CreateQuicTransportServer_pfx_def Let_def
      split: if_splits)

lemma client_thread_refs:
  "fst (CreateQuicTransportClient e this u ps w) = Returns (Some cl) \<Longrightarrow>
     client_io_thread cl = io_thread this \<and> client_event_thread cl = event_thread this"
  by (auto simp add: CreateQuicTransportClient_def Let_def split: option.splits if_splits)

subsection \<open>The claims\<close>

text \<open>
  C2 (as the code has it). Both overloads of \<^verbatim>\<open>CreateQuicTransportServer\<close> run entirely
  on the calling thread: every step they add to the trace is the caller's, none of them
  posts a task, and when a server is returned its construction is one of those steps.
\<close>

theorem C2_server_built_on_calling_thread:
  "(\<exists>evs. trace (snd (CreateQuicTransportServer e this p c k s w)) = trace w @ evs
        \<and> list_all (\<lambda>ev. fst ev = CallingThread \<and> (\<forall>n. snd ev \<noteq> PostTask n)) evs
        \<and> (fst (CreateQuicTransportServer e this p c k s w) \<noteq> None
             \<longrightarrow> (CallingThread, New_QuicTransportOwtServerImpl) \<in> set evs))
   \<and> (\<exists>evs. trace (snd (CreateQuicTransportServer_pfx e this p f pw w)) = trace w @ evs
        \<and> list_all (\<lambda>ev. fst ev = CallingThread \<and> (\<forall>n. snd ev \<noteq> PostTask n)) evs
        \<and> (fst (CreateQuicTransportServer_pfx e this p f pw w) \<noteq> None
             \<longrightarrow> (CallingThread, New_QuicTransportOwtServerImpl) \<in> set evs))"
proof (intro conjI)
  show "\<exists>evs. trace (snd (CreateQuicTransportServer e this p c k s w)) = trace w @ evs
        \<and> list_all (\<lambda>ev. fst ev = CallingThread \<and> (\<forall>n. snd ev \<noteq> PostTask n)) evs
        \<and> (fst (CreateQuicTransportServer e this p c k s w) \<noteq> None
             \<longrightarrow> (CallingThread, New_QuicTransportOwtServerImpl) \<in> set evs)"
  proof (cases "ProofSourceChromium_Initialize e c k []")
    case True
    then show ?thesis by (simp add: server_files_ok)
  next
    case False
    then show ?thesis by (simp add: server_files_fail)
  qed
next
  show "\<exists>evs. trace (snd (CreateQuicTransportServer_pfx e this p f pw w)) = trace w @ evs
        \<and> list_all (\<lambda>ev. fst ev = CallingThread \<and> (\<forall>n. snd ev \<noteq> PostTask n)) evs
        \<and> (fst (CreateQuicTransportServer_pfx e this p f pw w) \<noteq> None
             \<longrightarrow> (CallingThread, New_QuicTransportOwtServerImpl) \<in> set evs)"
  proof (cases "ProofSourceOwt_Initialize e f pw")
    case True
    then show ?thesis by (simp add: server_pfx_ok)
  next
    case False
    then show ?thesis by (simp add: server_pfx_fail)
  qed
qed

text \<open>C2, at a certificate pair and an archive that both load.\<close>

theorem C2_witness:
  "fst (CreateQuicTransportServer example_env example_factory 9090 ''cert.pem'' ''key.pem'' []
          example_process) \<noteq> None
   \<and> fst (CreateQuicTransportServer_pfx example_env example_factory 9090 ''archive.pfx''
            ''password'' example_process) \<noteq> None
   \<and> (\<exists>evs. trace (snd (CreateQuicTransportServer example_env example_factory 9090
                 ''cert.pem'' ''key.pem'' [] example_process)) = trace example_process @ evs
        \<and> list_all (\<lambda>ev. fst ev = CallingThread \<and> (\<forall>n. snd ev \<noteq> PostTask n)) evs
        \<and> (CallingThread, New_QuicTransportOwtServerImpl) \<in> set evs)
   \<and> (\<exists>evs. trace (snd (CreateQuicTransportServer_pfx example_env example_factory 9090
                 ''archive.pfx'' ''password'' example_process)) = trace example_process @ evs
        \<and> list_all (\<lambda>ev. fst ev = CallingThread \<and> (\<forall>n. snd ev \<noteq> PostTask n)) evs
        \<and> (CallingThread, New_QuicTransportOwtServerImpl) \<in> set evs)"
  using C2_server_built_on_calling_thread
    [of example_env example_factory 9090 "''cert.pem''" "''key.pem''" "[]" example_process
        "''archive.pfx''" "''password''"]
  by (simp add: server_files_ok server_pfx_ok)

text \<open>
  C2 as stated fails: with identity material that loads, each overload constructs the
  server on the calling thread right after the initialisation; no task is posted and
  nothing is constructed on the I/O thread.
\<close>

theorem C2_counterexample:
  "trace (snd (CreateQuicTransportServer example_env example_factory 9090 ''cert.pem''
                 ''key.pem'' [] example_process))
     = trace example_process @
       [(CallingThread, ProofSourceChromium_Initialize_call ''cert.pem'' ''key.pem'' []),
        (CallingThread, New_QuicTransportOwtServerImpl)]
   \<and> trace (snd (CreateQuicTransportServer_pfx example_env example_factory 9090 ''archive.pfx''
                   ''password'' example_process))
     = trace example_process @
       [(CallingThread, ProofSourceOwt_Initialize_call ''archive.pfx'' ''password''),
        (CallingThread, New_QuicTransportOwtServerImpl)]
   \<and> (WorkerThread (io_thread example_factory), New_QuicTransportOwtServerImpl)
       \<notin> set (trace example_process)"
  by (simp add: server_files_ok server_pfx_ok example_process_trace)

text \<open>
  C3. For either overload: if the proof source does not initialise, the call returns the
  null handle, and all it does besides the initialisation attempt is log the error (no
  server is constructed); if it initialises, the call returns a server that owns that
  proof source and listens on the given port.
\<close>

theorem C3_null_iff_initialize_fails:
  "(\<not> ProofSourceChromium_Initialize e c k [] \<longrightarrow>
      CreateQuicTransportServer e this p c k s w =
        (None, w\<lparr>trace := trace w @
           [(CallingThread, ProofSourceChromium_Initialize_call c k []),
            (CallingThread, LOG LOG_ERROR ''Failed to initialize proof source.'')]\<rparr>))
   \<and> (ProofSourceChromium_Initialize e c k [] \<longrightarrow>
      (\<exists>srv. fst (CreateQuicTransportServer e this p c k s w) = Some srv
         \<and> proof_source srv = ProofSourceChromium c k [] \<and> port srv = p))
   \<and> (\<not> ProofSourceOwt_Initialize e f pw \<longrightarrow>
      CreateQuicTransportServer_pfx e this p f pw w =
        (None, w\<lparr>trace := trace w @
           [(CallingThread, ProofSourceOwt_Initialize_call f pw),
            (CallingThread, LOG LOG_ERROR ''Failed to initialize proof source.'')]\<rparr>))
   \<and> (ProofSourceOwt_Initialize e f pw \<longrightarrow>
      (\<exists>srv. fst (CreateQuicTransportServer_pfx e this p f pw w) = Some srv
         \<and> proof_source srv = ProofSourceOwt f pw \<and> port srv = p))"
  by (simp add: server_files_ok server_files_fail server_pfx_ok server_pfx_fail)

text \<open>C3, at a missing certificate, a wrong password, and material that loads.\<close>

theorem C3_witness:
  "\<not> ProofSourceChromium_Initialize example_env ''missing.pem'' ''key.pem'' []
   \<and> fst (CreateQuicTransportServer example_env example_factory 9090 ''missing.pem'' ''key.pem''
            [] example_process) = None
   \<and> ProofSourceChromium_Initialize example_env ''cert.pem'' ''key.pem'' []
   \<and> (\<exists>srv. fst (CreateQuicTransportServer example_env example_factory 9090 ''cert.pem''
                  ''key.pem'' [] example_process) = Some srv
         \<and> proof_source srv = ProofSourceChromium ''cert.pem'' ''key.pem'' [])
   \<and> \<not> ProofSourceOwt_Initialize example_env ''archive.pfx'' ''wrong-password''
   \<and> fst (CreateQuicTransportServer_pfx example_env example_factory 9090 ''archive.pfx''
            ''wrong-password'' example_process) = None
   \<and> ProofSourceOwt_Initialize example_env ''archive.pfx'' ''password''
   \<and> (\<exists>srv. fst (CreateQuicTransportServer_pfx example_env example_factory 9090
                  ''archive.pfx'' ''password'' example_process) = Some srv
         \<and> proof_source srv = ProofSourceOwt ''archive.pfx'' ''password'')"
  using C3_null_iff_initialize_fails
    [of example_env "''missing.pem''" "''key.pem''" example_factory 9090 "[]" example_process
        "''archive.pfx''" "''wrong-password''"]
    C3_null_iff_initialize_fails
    [of example_env "''cert.pem''" "''key.pem''" example_factory 9090 "[]" example_process
        "''archive.pfx''" "''password''"]
  by auto

text \<open>
  C4. The one-argument \<^verbatim>\<open>CreateQuicTransportClient\<close> gives the same outcome and the same
  process state as the two-argument form with any argument value that announces zero
  fingerprints, and a client it returns has no fingerprint configured.
\<close>

theorem C4_one_argument_form:
  "server_certificate_fingerprints_length p = 0 \<Longrightarrow>
   CreateQuicTransportClient_url e this u w = CreateQuicTransportClient e this u p w
   \<and> (\<forall>c. fst (CreateQuicTransportClient_url e this u w) = Returns (Some c)
          \<longrightarrow> quic_server_certificate_fingerprints (client_parameters c) = [])"
  by (auto simp add: CreateQuicTransportClient_url_def CreateQuicTransportClient_def
      fingerprints_loop_zero Let_def)

text \<open>C4, at an argument value whose array is not empty but whose announced length is zero.\<close>

theorem C4_witness:
  "server_certificate_fingerprints_length
      \<lparr>server_certificate_fingerprints =
         [Some \<lparr>owt_algorithm = SHA256, owt_fingerprint = ''AB:CD''\<rparr>],
       server_certificate_fingerprints_length = 0\<rparr> = 0
   \<and> CreateQuicTransportClient_url example_env example_factory ''https://example.test:9090''
        example_process
     = CreateQuicTransportClient example_env example_factory ''https://example.test:9090''
         \<lparr>server_certificate_fingerprints =
            [Some \<lparr>owt_algorithm = SHA256, owt_fingerprint = ''AB:CD''\<rparr>],
          server_certificate_fingerprints_length = 0\<rparr> example_process
   \<and> (\<exists>c. fst (CreateQuicTransportClient_url example_env example_factory
                 ''https://example.test:9090'' example_process) = Returns (Some c)
          \<and> quic_server_certificate_fingerprints (client_parameters c) = [])"
proof -
  let ?p = "\<lparr>server_certificate_fingerprints =
               [Some \<lparr>owt_algorithm = SHA256, owt_fingerprint = ''AB:CD''\<rparr>],
             server_certificate_fingerprints_length = 0\<rparr>"
  have z: "server_certificate_fingerprints_length ?p = 0" by simp
  have "\<exists>c. fst (CreateQuicTransportClient example_env example_factory
                 ''https://example.test:9090'' ?p example_process) = Returns (Some c)"
    using client_accepted[OF fingerprints_loop_zero[OF z] example_accepts] by simp
  with C4_one_argument_form[OF z, of example_env example_factory
      "''https://example.test:9090''" example_process]
  show ?thesis by auto
qed

text \<open>
  C5. When the caller's array can be read up to the announced length \<open>n\<close>, the translation
  yields a configuration of exactly \<open>n\<close> entries, the \<open>i\<close>-th carrying the digest of the
  \<open>i\<close>-th record; the configuration depends on the argument alone: any client built from
  it, by any factory in any process state, holds that configuration.
\<close>

theorem C5_translation_keeps_order:
  "parameters_readable p \<Longrightarrow>
   \<exists>cfg. fingerprints_loop p 0 \<lparr>quic_server_certificate_fingerprints = []\<rparr> = Some cfg
     \<and> length (quic_server_certificate_fingerprints cfg)
         = server_certificate_fingerprints_length p
     \<and> (\<forall>i < server_certificate_fingerprints_length p.
           fingerprint (quic_server_certificate_fingerprints cfg ! i)
             = owt_fingerprint (the (server_certificate_fingerprints p ! i)))
     \<and> (\<forall>e this u w c w'.
           CreateQuicTransportClient e this u p w = (Returns (Some c), w')
             \<longrightarrow> client_parameters c = cfg)"
proof -
  assume r: "parameters_readable p"
  let ?cfg = "\<lparr>quic_server_certificate_fingerprints =
        map (\<lambda>r. \<lparr>algorithm = kSha256, fingerprint = owt_fingerprint (the r)\<rparr>)
          (take (server_certificate_fingerprints_length p) (server_certificate_fingerprints p))\<rparr>"
  from r have len: "server_certificate_fingerprints_length p
      \<le> length (server_certificate_fingerprints p)"
    by (simp add: parameters_readable_def)
  have loop: "fingerprints_loop p 0 \<lparr>quic_server_certificate_fingerprints = []\<rparr> = Some ?cfg"
    using r by (rule fingerprints_loop_readable)
  have n: "length (quic_server_certificate_fingerprints ?cfg)
         = server_certificate_fingerprints_length p"
    using len by simp
  have nth: "\<forall>i < server_certificate_fingerprints_length p.
           fingerprint (quic_server_certificate_fingerprints ?cfg ! i)
             = owt_fingerprint (the (server_certificate_fingerprints p ! i))"
    using len by simp
  have cl: "\<forall>e this u w c w'.
           CreateQuicTransportClient e this u p w = (Returns (Some c), w')
             \<longrightarrow> client_parameters c = ?cfg"
    by (auto simp add: CreateQuicTransportClient_def loop Let_def split: if_splits)
  from loop n nth cl show ?thesis by blast
qed

text \<open>C5, at two records.\<close>

theorem C5_witness:
  "parameters_readable two_fingerprints
   \<and> (\<exists>c w'. CreateQuicTransportClient example_env example_factory ''https://example.test:9090''
                 two_fingerprints example_process = (Returns (Some c), w')
          \<and> map fingerprint (quic_server_certificate_fingerprints (client_parameters c))
              = [''AB:CD'', ''01:23''])"
proof -
  have r: "parameters_readable two_fingerprints"
    by (simp add: parameters_readable_def two_fingerprints_def)
  from C5_translation_keeps_order[OF r] obtain cfg where
    loop: "fingerprints_loop two_fingerprints 0 \<lparr>quic_server_certificate_fingerprints = []\<rparr>
             = Some cfg"
    and n: "length (quic_server_certificate_fingerprints cfg)
             = server_certificate_fingerprints_length two_fingerprints"
    and nth: "\<forall>i < server_certificate_fingerprints_length two_fingerprints.
           fingerprint (quic_server_certificate_fingerprints cfg ! i)
             = owt_fingerprint (the (server_certificate_fingerprints two_fingerprints ! i))"
    by blast
  from n have n2: "length (quic_server_certificate_fingerprints cfg) = 2"
    by (simp add: two_fingerprints_def)
  from nth have "fingerprint (quic_server_certificate_fingerprints cfg ! 0) = ''AB:CD''"
    and "fingerprint (quic_server_certificate_fingerprints cfg ! 1) = ''01:23''"
    by (simp_all add: two_fingerprints_def)
  with n2 have "map fingerprint (quic_server_certificate_fingerprints cfg) = [''AB:CD'', ''01:23'']"
    by (intro nth_equalityI) (auto simp add: less_Suc_eq numeral_2_eq_2)
  with r client_accepted[OF loop example_accepts, of example_env "''https://example.test:9090''"]
  show ?thesis by simp
qed

text \<open>
  C6 (as the code has it). \<^verbatim>\<open>CreateQuicTransportClient\<close> never returns the null handle:
  whatever the URL, when the array can be read and the I/O thread takes the task it
  returns a client holding that URL and the origin \<^verbatim>\<open>url::Origin::Create\<close> computed from
  it. The failure that does return a null handle is a proof source that does not
  initialise; both server overloads then return the same null handle and log the same
  message, with no error kind.
\<close>

theorem C6_client_handle_never_null:
  "fst (CreateQuicTransportClient e this u p w) \<noteq> Returns None
   \<and> (parameters_readable p \<and> task_accepted (io_thread this) w \<longrightarrow>
        (\<exists>c. fst (CreateQuicTransportClient e this u p w) = Returns (Some c)
           \<and> url c = u \<and> origin c = Origin_Create e u))
   \<and> (\<not> ProofSourceChromium_Initialize e c k [] \<and> \<not> ProofSourceOwt_Initialize e f pw \<longrightarrow>
        fst (CreateQuicTransportServer e this n c k s w) = None
        \<and> fst (CreateQuicTransportServer_pfx e this n f pw w) = None
        \<and> last (trace (snd (CreateQuicTransportServer e this n c k s w)))
            = (CallingThread, LOG LOG_ERROR ''Failed to initialize proof source.'')
        \<and> last (trace (snd (CreateQuicTransportServer_pfx e this n f pw w)))
            = (CallingThread, LOG LOG_ERROR ''Failed to initialize proof source.''))"
proof -
  have a: "fst (CreateQuicTransportClient e this u p w) \<noteq> Returns None"
    by (rule client_never_null)
  have b: "parameters_readable p \<and> task_accepted (io_thread this) w \<longrightarrow>
        (\<exists>c. fst (CreateQuicTransportClient e this u p w) = Returns (Some c)
           \<and> url c = u \<and> origin c = Origin_Create e u)"
    using client_accepted[OF fingerprints_loop_readable, of p this w e u] by simp
  have c: "\<not> ProofSourceChromium_Initialize e c k [] \<and> \<not> ProofSourceOwt_Initialize e f pw \<longrightarrow>
        fst (CreateQuicTransportServer e this n c k s w) = None
        \<and> fst (CreateQuicTransportServer_pfx e this n f pw w) = None
        \<and> last (trace (snd (CreateQuicTransportServer e this n c k s w)))
            = (CallingThread, LOG LOG_ERROR ''Failed to initialize proof source.'')
        \<and> last (trace (snd (CreateQuicTransportServer_pfx e this n f pw w)))
            = (CallingThread, LOG LOG_ERROR ''Failed to initialize proof source.'')"
    by (simp add: server_files_fail server_pfx_fail)
  from a b c show ?thesis by (intro conjI)
qed

text \<open>C6, at a string that is not a URL and at identity material that does not load.\<close>

theorem C6_witness:
  "parameters_readable no_fingerprints
   \<and> task_accepted (io_thread example_factory) example_process
   \<and> (\<exists>c. fst (CreateQuicTransportClient example_env example_factory ''not a url''
                 no_fingerprints example_process) = Returns (Some c)
          \<and> url c = ''not a url'' \<and> origin c = OpaqueOrigin)
   \<and> \<not> ProofSourceChromium_Initialize example_env ''missing.pem'' ''key.pem'' []
   \<and> \<not> ProofSourceOwt_Initialize example_env ''archive.pfx'' ''wrong-password''
   \<and> fst (CreateQuicTransportServer example_env example_factory 9090 ''missing.pem'' ''key.pem''
            [] example_process) = None
   \<and> fst (CreateQuicTransportServer_pfx example_env example_factory 9090 ''archive.pfx''
            ''wrong-password'' example_process) = None"
proof -
  have r: "parameters_readable no_fingerprints"
    by (simp add: parameters_readable_def no_fingerprints_def)
  from r C6_client_handle_never_null
    [of example_env example_factory "''not a url''" no_fingerprints example_process
        "''missing.pem''" "''key.pem''" "''archive.pfx''" "''wrong-password''" 9090 "[]"]
  show ?thesis by simp
qed

text \<open>
  C6 as stated fails: for a string whose origin is opaque (it does not parse into a scheme,
  host and port) the call returns a constructed client, not the null handle.
\<close>

theorem C6_counterexample:
  "Origin_Create example_env ''not a url'' = OpaqueOrigin
   \<and> fst (CreateQuicTransportClient_url example_env example_factory ''not a url'' example_process)
     = Returns (Some \<lparr>url = ''not a url'', origin = OpaqueOrigin,
                       client_parameters = \<lparr>quic_server_certificate_fingerprints = []\<rparr>,
                       client_io_thread = 0, client_event_thread = 1\<rparr>)"
proof -
  have z: "server_certificate_fingerprints_length
             ((Parameters_default example_env)\<lparr>server_certificate_fingerprints_length := 0\<rparr>) = 0"
    by simp
  from client_accepted[OF fingerprints_loop_zero[OF z] example_accepts]
  show ?thesis
    by (simp add: CreateQuicTransportClient_url_def example_factory_eq)
qed

text \<open>
  C7 (as the code has it). The call has no fail-fast path and reports no error. The
  topology is torn down by the destructor alone, which destroys both thread objects; a
  call made after it, whatever its arguments, reads the destroyed I/O thread: it is
  undefined behaviour, and it adds nothing to the trace (nothing is posted, nothing is
  logged). On a factory whose I/O thread takes the task, with a readable argument and a
  caller that is not one of the factory's own threads, the call posts the task, waits, and
  returns the client the task constructed.
\<close>

theorem C7_no_fail_fast_after_teardown:
  "CreateQuicTransportClient e this u p (QuicTransportFactoryImpl_dtor this w)
     = (UndefinedBehaviour, QuicTransportFactoryImpl_dtor this w)
   \<and> CreateQuicTransportClient_url e this u (QuicTransportFactoryImpl_dtor this w)
     = (UndefinedBehaviour, QuicTransportFactoryImpl_dtor this w)
   \<and> trace (QuicTransportFactoryImpl_dtor this w) = trace w
   \<and> (parameters_readable p \<and> task_accepted (io_thread this) w \<longrightarrow>
        (\<exists>c. CreateQuicTransportClient e this u p w =
           (Returns (Some c),
            w\<lparr>trace := trace w @
               [(CallingThread, PostTask (io_thread this)), (CallingThread, WaitableEvent_Wait),
                (WorkerThread (io_thread this), Origin_Create_call u),
                (WorkerThread (io_thread this), New_QuicTransportOwtClientImpl),
                (WorkerThread (io_thread this), WaitableEvent_Signal)]\<rparr>)))"
proof -
  have a: "CreateQuicTransportClient e this u p (QuicTransportFactoryImpl_dtor this w)
     = (UndefinedBehaviour, QuicTransportFactoryImpl_dtor this w)"
    by (rule client_after_dtor)
  have b: "CreateQuicTransportClient_url e this u (QuicTransportFactoryImpl_dtor this w)
     = (UndefinedBehaviour, QuicTransportFactoryImpl_dtor this w)"
    by (simp add: CreateQuicTransportClient_url_def client_after_dtor)
  have c: "trace (QuicTransportFactoryImpl_dtor this w) = trace w"
    by (rule trace_after_dtor)
  have d: "parameters_readable p \<and> task_accepted (io_thread this) w \<longrightarrow>
        (\<exists>c. CreateQuicTransportClient e this u p w =
           (Returns (Some c),
            w\<lparr>trace := trace w @
               [(CallingThread, PostTask (io_thread this)), (CallingThread, WaitableEvent_Wait),
                (WorkerThread (io_thread this), Origin_Create_call u),
                (WorkerThread (io_thread this), New_QuicTransportOwtClientImpl),
                (WorkerThread (io_thread this), WaitableEvent_Signal)]\<rparr>))"
    using client_accepted[OF fingerprints_loop_readable, of p this w e u] by simp
  from a b c d show ?thesis by (intro conjI)
qed

text \<open>C7, at the running factory and at the same factory after its destructor.\<close>

theorem C7_witness:
  "parameters_readable no_fingerprints
   \<and> task_accepted (io_thread example_factory) example_process
   \<and> (\<exists>c. fst (CreateQuicTransportClient example_env example_factory
                 ''https://example.test:9090'' no_fingerprints example_process)
            = Returns (Some c))
   \<and> fst (CreateQuicTransportClient example_env example_factory ''https://example.test:9090''
            no_fingerprints (QuicTransportFactoryImpl_dtor example_factory example_process))
       = UndefinedBehaviour"
proof -
  have r: "parameters_readable no_fingerprints"
    by (simp add: parameters_readable_def no_fingerprints_def)
  from C7_no_fail_fast_after_teardown
    [of example_env example_factory "''https://example.test:9090''" no_fingerprints
        example_process]
    r example_accepts
  show ?thesis by auto
qed

text \<open>
  C7 as stated fails: after the factory has been built and torn down, both thread objects
  are destroyed, and the call neither reports an error nor posts a task; it is undefined
  behaviour.
\<close>

theorem C7_counterexample:
  "QuicTransportFactoryImpl_dtor example_factory example_process
     = \<lparr>threads =
          [\<lparr>thread_name = ''quic_transport_io_thread'', message_pump_type = Some IO,
            accepts_tasks = False\<rparr>,
           \<lparr>thread_name = ''quic_transport_event_thread'', message_pump_type = Some IO,
            accepts_tasks = False\<rparr>],
        deleted = [0, 1],
        trace = trace example_process\<rparr>
   \<and> CreateQuicTransportClient_url example_env example_factory ''https://example.test:9090''
        (QuicTransportFactoryImpl_dtor example_factory example_process)
     = (UndefinedBehaviour, QuicTransportFactoryImpl_dtor example_factory example_process)"
proof -
  note d = example_process_deleted
  have "QuicTransportFactoryImpl_dtor example_factory example_process
     = \<lparr>threads =
          [\<lparr>thread_name = ''quic_transport_io_thread'', message_pump_type = Some IO,
            accepts_tasks = False\<rparr>,
           \<lparr>thread_name = ''quic_transport_event_thread'', message_pump_type = Some IO,
            accepts_tasks = False\<rparr>],
        deleted = [0, 1],
        trace = trace example_process\<rparr>"
    by (simp add: QuicTransportFactoryImpl_dtor_def Thread_delete_def Thread_Stop_def Let_def
        example_process_threads d)
  moreover have "CreateQuicTransportClient_url example_env example_factory
        ''https://example.test:9090''
        (QuicTransportFactoryImpl_dtor example_factory example_process)
     = (UndefinedBehaviour, QuicTransportFactoryImpl_dtor example_factory example_process)"
    by (simp only: CreateQuicTransportClient_url_def Let_def client_after_dtor)
  ultimately show ?thesis by (rule conjI)
qed

text \<open>
  C8. The constructor adds exactly two threads to the process, leaves the others as they
  were, and returns with both started on an I/O message pump; from then on, in any
  process state, every server and client the factory creates holds these two threads, and
  creating an endpoint adds no thread.
\<close>

theorem C8_two_threads_shared_by_endpoints:
  "QuicTransportFactoryImpl_ctor e w = (this, w') \<Longrightarrow>
   length (threads w') = length (threads w) + 2
   \<and> take (length (threads w)) (threads w') = threads w
   \<and> io_thread this = length (threads w) \<and> event_thread this = length (threads w) + 1
   \<and> threads w' ! io_thread this =
        \<lparr>thread_name = ''quic_transport_io_thread'', message_pump_type = Some IO,
         accepts_tasks = True\<rparr>
   \<and> threads w' ! event_thread this =
        \<lparr>thread_name = ''quic_transport_event_thread'', message_pump_type = Some IO,
         accepts_tasks = True\<rparr>
   \<and> (\<forall>srv. fst (CreateQuicTransportServer e1 this p c k s w1) = Some srv \<or>
             fst (CreateQuicTransportServer_pfx e1 this p f pw w1) = Some srv \<longrightarrow>
          server_io_thread srv = io_thread this \<and> server_event_thread srv = event_thread this)
   \<and> (\<forall>cl. fst (CreateQuicTransportClient e1 this u ps w1) = Returns (Some cl) \<or>
            fst (CreateQuicTransportClient_url e1 this u w1) = Returns (Some cl) \<longrightarrow>
          client_io_thread cl = io_thread this \<and> client_event_thread cl = event_thread this)
   \<and> threads (snd (CreateQuicTransportServer e1 this p c k s w1)) = threads w1
   \<and> threads (snd (CreateQuicTransportServer_pfx e1 this p f pw w1)) = threads w1
   \<and> threads (snd (CreateQuicTransportClient e1 this u ps w1)) = threads w1
   \<and> threads (snd (CreateQuicTransportClient_url e1 this u w1)) = threads w1"
proof -
  assume h: "QuicTransportFactoryImpl_ctor e w = (this, w')"
  from h have this_eq: "this = \<lparr>at_exit_manager = None, io_thread = length (threads w),
       event_thread = Suc (length (threads w))\<rparr>"
    and thr: "threads w' = threads w @
         [\<lparr>thread_name = ''quic_transport_io_thread'', message_pump_type = Some IO,
           accepts_tasks = True\<rparr>,
          \<lparr>thread_name = ''quic_transport_event_thread'', message_pump_type = Some IO,
           accepts_tasks = True\<rparr>]"
    by (auto simp add: ctor_eq)
  have heap: "length (threads w') = length (threads w) + 2
   \<and> take (length (threads w)) (threads w') = threads w
   \<and> io_thread this = length (threads w) \<and> event_thread this = length (threads w) + 1
   \<and> threads w' ! io_thread this =
        \<lparr>thread_name = ''quic_transport_io_thread'', message_pump_type = Some IO,
         accepts_tasks = True\<rparr>
   \<and> threads w' ! event_thread this =
        \<lparr>thread_name = ''quic_transport_event_thread'', message_pump_type = Some IO,
         accepts_tasks = True\<rparr>"
    by (simp add: this_eq thr nth_append)
  have srv: "\<forall>srv. fst (CreateQuicTransportServer e1 this p c k s w1) = Some srv \<or>
             fst (CreateQuicTransportServer_pfx e1 this p f pw w1) = Some srv \<longrightarrow>
          server_io_thread srv = io_thread this \<and> server_event_thread srv = event_thread this"
    using server_thread_refs by blast
  have cl: "\<forall>cl. fst (CreateQuicTransportClient e1 this u ps w1) = Returns (Some cl) \<or>
            fst (CreateQuicTransportClient_url e1 this u w1) = Returns (Some cl) \<longrightarrow>
          client_io_thread cl = io_thread this \<and> client_event_thread cl = event_thread this"
    using client_thread_refs unfolding CreateQuicTransportClient_url_def Let_def by blast
  have same: "threads (snd (CreateQuicTransportServer e1 this p c k s w1)) = threads w1
   \<and> threads (snd (CreateQuicTransportServer_pfx e1 this p f pw w1)) = threads w1
   \<and> threads (snd (CreateQuicTransportClient e1 this u ps w1)) = threads w1
   \<and> threads (snd (CreateQuicTransportClient_url e1 this u w1)) = threads w1"
    by (simp add: server_threads client_threads CreateQuicTransportClient_url_def Let_def)
  from heap srv cl same show ?thesis by blast
qed

text \<open>C8, at the first factory of a process.\<close>

theorem C8_witness:
  "QuicTransportFactoryImpl_ctor example_env empty_process = (example_factory, example_process)
   \<and> length (threads example_process) = 2
   \<and> io_thread example_factory = 0 \<and> event_thread example_factory = 1
   \<and> (\<exists>srv. fst (CreateQuicTransportServer example_env example_factory 9090 ''cert.pem''
                  ''key.pem'' [] example_process) = Some srv
          \<and> server_io_thread srv = 0 \<and> server_event_thread srv = 1)
   \<and> (\<exists>cl. fst (CreateQuicTransportClient_url example_env example_factory
                  ''https://example.test:9090'' example_process) = Returns (Some cl)
          \<and> client_io_thread cl = 0 \<and> client_event_thread cl = 1)
   \<and> threads (snd (CreateQuicTransportClient_url example_env example_factory
                  ''https://example.test:9090'' example_process)) = threads example_process"
proof -
  have h: "QuicTransportFactoryImpl_ctor example_env empty_process
             = (example_factory, example_process)"
    by (simp add: example_factory_def example_process_def CreateForTesting_def)
  have s: "\<exists>srv. fst (CreateQuicTransportServer example_env example_factory 9090 ''cert.pem''
                  ''key.pem'' [] example_process) = Some srv"
    by (simp add: server_files_ok)
  have z: "server_certificate_fingerprints_length
             ((Parameters_default example_env)\<lparr>server_certificate_fingerprints_length := 0\<rparr>) = 0"
    by simp
  have c: "\<exists>cl. fst (CreateQuicTransportClient_url example_env example_factory
                  ''https://example.test:9090'' example_process) = Returns (Some cl)"
    using client_accepted[OF fingerprints_loop_zero[OF z] example_accepts]
    by (simp add: CreateQuicTransportClient_url_def)
  from C8_two_threads_shared_by_endpoints
    [OF h, of example_env 9090 "''cert.pem''" "''key.pem''" "[]" example_process
       "''archive.pfx''" "''password''" "''https://example.test:9090''" no_fingerprints]
    h s c
  show ?thesis
    by (auto simp add: empty_process_def)
qed

text \<open>
  C9 (as the code has it). The bootstrap is not guarded: every construction of a factory,
  in any process state, runs \<^verbatim>\<open>Init\<close> again, that is the same five calls in the same order;
  \<^verbatim>\<open>Create\<close> starts the thread pool before them each time as well.
\<close>

theorem C9_bootstrap_runs_on_every_construction:
  "trace (snd (QuicTransportFactoryImpl_ctor e w)) = trace w @
     [(CallingThread, CommandLine_Init), (CallingThread, CommandLine_ForCurrentProcess),
      (CallingThread, CommandLine_AppendSwitch ''--quic_default_to_bbr''),
      (CallingThread, SetMinLogLevel (if DEBUG_defined e then LOG_INFO else LOG_WARNING)),
      (CallingThread, InitLogging LOG_TO_STDERR)]
   \<and> trace (snd (CreateForTesting e w)) = trace (snd (QuicTransportFactoryImpl_ctor e w))
   \<and> trace (snd (Create e w)) = trace w @
     [(CallingThread,
       ThreadPoolInstance_CreateAndStartWithDefaultParams ''quic_transport_thread_pool''),
      (CallingThread, CommandLine_Init), (CallingThread, CommandLine_ForCurrentProcess),
      (CallingThread, CommandLine_AppendSwitch ''--quic_default_to_bbr''),
      (CallingThread, SetMinLogLevel (if DEBUG_defined e then LOG_INFO else LOG_WARNING)),
      (CallingThread, InitLogging LOG_TO_STDERR)]"
  by (simp add: ctor_eq CreateForTesting_def Create_def Let_def split_def)

text \<open>
  C9 as stated fails: constructing a second factory repeats the five bootstrap calls of
  the first.
\<close>

theorem C9_counterexample:
  "trace (snd (CreateForTesting example_env empty_process)) =
     [(CallingThread, CommandLine_Init), (CallingThread, CommandLine_ForCurrentProcess),
      (CallingThread, CommandLine_AppendSwitch ''--quic_default_to_bbr''),
      (CallingThread, SetMinLogLevel LOG_WARNING), (CallingThread, InitLogging LOG_TO_STDERR)]
   \<and> trace (snd (CreateForTesting example_env (snd (CreateForTesting example_env empty_process)))) =
     [(CallingThread, CommandLine_Init), (CallingThread, CommandLine_ForCurrentProcess),
      (CallingThread, CommandLine_AppendSwitch ''--quic_default_to_bbr''),
      (CallingThread, SetMinLogLevel LOG_WARNING), (CallingThread, InitLogging LOG_TO_STDERR),
      (CallingThread, CommandLine_Init), (CallingThread, CommandLine_ForCurrentProcess),
      (CallingThread, CommandLine_AppendSwitch ''--quic_default_to_bbr''),
      (CallingThread, SetMinLogLevel LOG_WARNING), (CallingThread, InitLogging LOG_TO_STDERR)]"
  by (simp add: ctor_eq CreateForTesting_def empty_process_def)

text \<open>
  C10. The file-pair overload does not depend on its \<open>secret_path\<close> argument: two calls
  that differ only there give the same handle and the same process state, and the one
  initialisation call either of them makes passes the empty path in the third place.
\<close>

theorem C10_secret_path_ignored:
  "CreateQuicTransportServer e this p cert_path key_path secret1 w
     = CreateQuicTransportServer e this p cert_path key_path secret2 w
   \<and> (\<exists>evs. trace (snd (CreateQuicTransportServer e this p cert_path key_path secret1 w))
          = trace w @ (CallingThread, ProofSourceChromium_Initialize_call cert_path key_path [])
              # evs)"
  by (simp add: CreateQuicTransportServer_def emit_def Let_def)

end
